theory Spec2Isabelle
  imports Main "HOL-Library.Word"
begin

unbundle bit_operations_syntax

section \<open>Machine model\<close>

text \<open>
  The kernel core (GIC driver, generic timer, MMU set-up, IRQ vector handler) is embedded
  as functions on an explicit machine state. Everything the code does to the outside
  world (memory-mapped register accesses, system-register accesses, console output,
  calls through function pointers) is appended to a trace, in program order. Values
  that the code reads from hardware are inputs of the function that reads them.
\<close>

type_synonym uint32 = "32 word"
type_synonym uint64 = "64 word"
type_synonym uintptr = "64 word"

text \<open>
  \<open>Kernel::InterruptHandler\<close> is a pointer to a function; \<open>void*\<close> is an opaque
  context pointer. A pointer is modelled by what it points to: the null pointer, an
  object of this kernel image, or something supplied by the caller.
\<close>

datatype fn_ptr = Nullfn | Generic_timer_irq_trampoline | Extern_fn nat

datatype void_ptr = Nullptr | Global_el1_timer_instance | Extern_obj nat

datatype sysreg = CNTFRQ_EL0 | CNTP_CTL_EL0 | CNTP_TVAL_EL0 | SCTLR_EL1

datatype event =
    Kprintf string
  | ConsolePrint string
  | ConsolePrintln string
  | MmioRead uintptr
  | MmioWrite uintptr uint32
  | Mrs sysreg
  | Msr sysreg uint64
  | Asm string
  | CallHandler fn_ptr uint32 void_ptr

text \<open>\<open>struct InterruptRegistration\<close> of \<open>include/kernel/interrupt.h\<close>.\<close>

record InterruptRegistration =
  handler :: fn_ptr
  context_p :: void_ptr
  is_registered :: bool

text \<open>The data members of \<open>class GICDriver\<close> (\<open>arch/arm/core/gic.h\<close>).\<close>

record GICDriver =
  gicd_base_addr :: uintptr
  gicc_base_addr :: uintptr
  handlers :: "InterruptRegistration list"
  num_irq_lines :: uint32

text \<open>The data members of \<open>class GenericTimer\<close> (\<open>arch/arm/peripherals/timer.h\<close>).\<close>

record GenericTimer =
  user_handler :: fn_ptr
  user_context :: void_ptr
  irq_number :: uint32
  current_interval_ticks :: uint64

text \<open>
  The global objects of the image: the static \<open>g_gic_driver\<close> of \<open>gic.cpp\<close>, the static
  \<open>global_el1_timer_instance\<close> of \<open>timer.cpp\<close>, the three static page tables of
  \<open>mmu.cpp\<close>, and the trace.
\<close>

record machine =
  g_gic_driver :: GICDriver
  global_el1_timer_instance :: GenericTimer
  l1_page_table :: "uint64 list"
  l2_page_table_0 :: "uint64 list"
  l2_page_table_1 :: "uint64 list"
  trace :: "event list"

text \<open>
  A call either returns, or ends in the final loop of \<open>Kernel::panic\<close>, which never
  gives control back: \<open>Halts m\<close> carries the machine as it is when that loop is entered.
\<close>

datatype outcome = Returns machine | Halts machine

fun machine_of :: "outcome \<Rightarrow> machine" where
  "machine_of (Returns m) = m"
| "machine_of (Halts m) = m"

fun returned :: "outcome \<Rightarrow> bool" where
  "returned (Returns m) = True"
| "returned (Halts m) = False"

text \<open>
  The code behind the function pointers that are not part of the modelled core: given
  the pointer, the two arguments of an \<open>InterruptHandler\<close> and the machine, the machine
  when the callee returns (or halts).
\<close>

type_synonym handler_code = "fn_ptr \<Rightarrow> uint32 \<Rightarrow> void_ptr \<Rightarrow> machine \<Rightarrow> outcome"

definition emit :: "event \<Rightarrow> machine \<Rightarrow> machine" where
  "emit e m = m\<lparr>trace := trace m @ [e]\<rparr>"

text \<open>\<open>Kernel::kprintf\<close>: the format string is recorded (without its final newline), its arguments are not.\<close>

definition kprintf :: "string \<Rightarrow> machine \<Rightarrow> machine" where
  "kprintf fmt m = emit (Kprintf fmt) m"

section \<open>Kernel::panic (kernel/panic.cpp)\<close>

text \<open>
  The final \<open>while (true) { asm volatile("wfi"); }\<close> of the routine. A result
  \<open>Some\<close> would be the machine with which the loop is left.
\<close>

partial_function (option) wfi_loop :: "machine \<Rightarrow> machine option" where
  "wfi_loop m = wfi_loop (emit (Asm ''wfi'') m)"

text \<open>
  The routine masks the interrupts, prints its lines on the console (a null \<open>message\<close> is
  \<open>None\<close>) and enters the loop.
\<close>

definition panic :: "string option \<Rightarrow> machine \<Rightarrow> outcome" where
  "panic message m0 =
    (let m1 = emit (Asm ''msr daifset, #0xf'') m0;
         m2 = emit (ConsolePrintln ''\<newline>*** KERNEL PANIC ***'') m1;
         m3 = (case message of
                 Some msg \<Rightarrow> emit (ConsolePrintln msg) (emit (ConsolePrint ''Message: '') m2)
               | None \<Rightarrow> emit (ConsolePrintln ''No message provided.'') m2);
         m4 = emit (ConsolePrintln ''System halted.'') m3
     in case wfi_loop m4 of None \<Rightarrow> Halts m4 | Some m5 \<Rightarrow> Returns m5)"

section \<open>GIC driver (arch/arm/core/gic.cpp)\<close>

definition MAX_IRQS :: uint32 where "MAX_IRQS = 256"

definition GICD_BASE :: uintptr where "GICD_BASE = 0xFF841000"
definition GICC_BASE :: uintptr where "GICC_BASE = 0xFF842000"

definition GICD_ISENABLER0 :: uintptr where "GICD_ISENABLER0 = 0x100"
definition GICD_ICENABLER0 :: uintptr where "GICD_ICENABLER0 = 0x180"
definition GICC_IAR :: uintptr where "GICC_IAR = 0x0C"
definition GICC_EOIR :: uintptr where "GICC_EOIR = 0x10"

text \<open>
  The constructor: \<open>kmemset(handlers, 0, sizeof(handlers))\<close> leaves every slot with a null
  handler, a null context and \<open>is_registered = false\<close>; \<open>num_irq_lines\<close> has the default
  member initialiser 0.
\<close>

definition empty_registration :: InterruptRegistration where
  "empty_registration = \<lparr>handler = Nullfn, context_p = Nullptr, is_registered = False\<rparr>"

definition GICDriver_ctor :: "uintptr \<Rightarrow> uintptr \<Rightarrow> GICDriver" where
  "GICDriver_ctor dist_base cpu_if_base =
    \<lparr>gicd_base_addr = dist_base, gicc_base_addr = cpu_if_base,
     handlers = replicate (unat MAX_IRQS) empty_registration,
     num_irq_lines = 0\<rparr>"

text \<open>The MMIO helpers. A read returns a value that is an input of the caller.\<close>

definition gicd_write :: "uintptr \<Rightarrow> uint32 \<Rightarrow> machine \<Rightarrow> machine" where
  "gicd_write offset v m = emit (MmioWrite (gicd_base_addr (g_gic_driver m) + offset) v) m"

definition gicc_write :: "uintptr \<Rightarrow> uint32 \<Rightarrow> machine \<Rightarrow> machine" where
  "gicc_write offset v m = emit (MmioWrite (gicc_base_addr (g_gic_driver m) + offset) v) m"

definition gicc_read :: "uintptr \<Rightarrow> machine \<Rightarrow> machine" where
  "gicc_read offset m = emit (MmioRead (gicc_base_addr (g_gic_driver m) + offset)) m"

definition enable_irq :: "uint32 \<Rightarrow> machine \<Rightarrow> machine" where
  "enable_irq irq_num m =
    (if irq_num \<ge> num_irq_lines (g_gic_driver m) \<or> irq_num \<ge> MAX_IRQS
     then kprintf ''GIC: enable_irq: Invalid IRQ %u'' m
     else gicd_write (GICD_ISENABLER0 + ucast ((irq_num div 32) * 4))
            (push_bit (unat (irq_num mod 32)) 1) m)"

definition disable_irq :: "uint32 \<Rightarrow> machine \<Rightarrow> machine" where
  "disable_irq irq_num m =
    (if irq_num \<ge> num_irq_lines (g_gic_driver m) \<or> irq_num \<ge> MAX_IRQS
     then kprintf ''GIC: disable_irq: Invalid IRQ %u'' m
     else gicd_write (GICD_ICENABLER0 + ucast ((irq_num div 32) * 4))
            (push_bit (unat (irq_num mod 32)) 1) m)"

definition end_of_interrupt :: "uint32 \<Rightarrow> machine \<Rightarrow> machine" where
  "end_of_interrupt irq_num m = gicc_write GICC_EOIR irq_num m"

definition set_slot :: "uint32 \<Rightarrow> InterruptRegistration \<Rightarrow> machine \<Rightarrow> machine" where
  "set_slot irq_num r m =
    m\<lparr>g_gic_driver := (g_gic_driver m)
        \<lparr>handlers := (handlers (g_gic_driver m))[unat irq_num := r]\<rparr>\<rparr>"

definition get_slot :: "machine \<Rightarrow> uint32 \<Rightarrow> InterruptRegistration" where
  "get_slot m irq_num = handlers (g_gic_driver m) ! unat irq_num"

definition register_handler :: "uint32 \<Rightarrow> fn_ptr \<Rightarrow> void_ptr \<Rightarrow> machine \<Rightarrow> bool \<times> machine" where
  "register_handler irq_num h c m =
    (if irq_num \<ge> MAX_IRQS
     then (False, kprintf ''GIC: register_handler: IRQ %u out of bounds for handler array (max %u)'' m)
     else if is_registered (get_slot m irq_num)
     then (False, kprintf ''GIC: register_handler: IRQ %u already has a handler.'' m)
     else (True, set_slot irq_num
                   \<lparr>handler = h, context_p = c, is_registered = True\<rparr> m))"

definition unregister_handler :: "uint32 \<Rightarrow> machine \<Rightarrow> bool \<times> machine" where
  "unregister_handler irq_num m =
    (if irq_num \<ge> MAX_IRQS then (False, m)
     else if \<not> is_registered (get_slot m irq_num) then (False, m)
     else (True, set_slot irq_num
                   \<lparr>handler = Nullfn, context_p = Nullptr, is_registered = False\<rparr> m))"

text \<open>
  \<open>dispatch_interrupt\<close>. \<open>iar_val\<close> is the value the read of \<open>GICC_IAR\<close> returns. The
  handler is called through the function pointer; when it returns, the slot is read
  again (the second \<open>if\<close> of the source) in the machine the handler left.
\<close>

definition dispatch_interrupt :: "handler_code \<Rightarrow> uint32 \<Rightarrow> uint32 \<Rightarrow> machine \<Rightarrow> outcome" where
  "dispatch_interrupt code iar_val dummy_irq_num m0 =
    (let m1 = gicc_read GICC_IAR m0;
         irq_id = iar_val AND 0x3FF
     in
     if irq_id \<ge> 1020 \<and> irq_id \<le> 1023 then
       (let m2 = kprintf ''GIC: Spurious interrupt or special ID %u. Ignoring.'' m1
        in Returns (if irq_id \<noteq> 1023 then gicc_write GICC_EOIR irq_id m2 else m2))
     else if irq_id \<ge> num_irq_lines (g_gic_driver m1) \<and> irq_id < 1020 then
       Returns (gicc_write GICC_EOIR irq_id
         (kprintf ''GIC: IRQ ID %u out of expected range (max %u from TYPER).'' m1))
     else if irq_id \<ge> MAX_IRQS then
       Returns (gicc_write GICC_EOIR irq_id
         (kprintf ''GIC: IRQ ID %u out of bounds for handler array (max %u).'' m1))
     else
       (case (if is_registered (get_slot m1 irq_id) \<and> handler (get_slot m1 irq_id) \<noteq> Nullfn
              then code (handler (get_slot m1 irq_id)) irq_id (context_p (get_slot m1 irq_id))
                     (emit (CallHandler (handler (get_slot m1 irq_id)) irq_id
                              (context_p (get_slot m1 irq_id))) m1)
              else Returns (kprintf ''GIC: Unhandled IRQ %u'' m1)) of
          Halts mh \<Rightarrow> Halts mh
        | Returns m2 \<Rightarrow>
            Returns (if \<not> is_registered (get_slot m2 irq_id) \<or> handler (get_slot m2 irq_id) = Nullfn
                     then gicc_write GICC_EOIR irq_id m2
                     else m2)))"

text \<open>
  \<open>Kernel::get_interrupt_controller\<close> returns the address of the static driver object;
  \<open>None\<close> stands for a null \<open>InterruptController*\<close>.
\<close>

datatype InterruptController = G_gic_driver

definition get_interrupt_controller :: "InterruptController option" where
  "get_interrupt_controller = Some G_gic_driver"

section \<open>IRQ vector handler (arch/arm/core/exceptions.cpp)\<close>

text \<open>
  \<open>c_irq_handler\<close> fetches the controller pointer and branches on it;
  \<open>c_irq_handler_body\<close> is the function from that branch on, with the fetched pointer
  as its argument. The virtual call \<open>ic->dispatch_interrupt(0)\<close> resolves to the GIC
  driver, the only implementation of the interface.
\<close>

definition c_irq_handler_body ::
  "InterruptController option \<Rightarrow> handler_code \<Rightarrow> uint32 \<Rightarrow> machine \<Rightarrow> outcome" where
  "c_irq_handler_body ic code iar_val m =
    (case ic of
       Some G_gic_driver \<Rightarrow> dispatch_interrupt code iar_val 0 m
     | None \<Rightarrow> Returns (kprintf ''IRQ: No interrupt controller available!'' m))"

definition c_irq_handler :: "handler_code \<Rightarrow> uint32 \<Rightarrow> machine \<Rightarrow> outcome" where
  "c_irq_handler code iar_val m = c_irq_handler_body get_interrupt_controller code iar_val m"

section \<open>Generic timer (arch/arm/peripherals/timer.cpp)\<close>

definition EL1_PHYSICAL_TIMER_IRQ :: uint32 where "EL1_PHYSICAL_TIMER_IRQ = 30"

definition GenericTimer_ctor :: GenericTimer where
  "GenericTimer_ctor =
    \<lparr>user_handler = Nullfn, user_context = Nullptr,
     irq_number = EL1_PHYSICAL_TIMER_IRQ, current_interval_ticks = 0\<rparr>"

definition set_control :: "bool \<Rightarrow> bool \<Rightarrow> machine \<Rightarrow> machine" where
  "set_control enable imask m =
    (let ctl0 = (0 :: uint32);
         ctl1 = (if enable then ctl0 OR push_bit 0 1 else ctl0);
         ctl2 = (if imask then ctl1 OR push_bit 1 1 else ctl1)
     in emit (Msr CNTP_CTL_EL0 (ucast ctl2)) m)"

definition set_interval_ticks :: "uint64 \<Rightarrow> machine \<Rightarrow> machine" where
  "set_interval_ticks ticks m =
    emit (Msr CNTP_TVAL_EL0 ticks)
      (m\<lparr>global_el1_timer_instance :=
           (global_el1_timer_instance m)\<lparr>current_interval_ticks := ticks\<rparr>\<rparr>)"

text \<open>
  \<open>GenericTimer::init\<close>, called on the global timer instance (so \<open>this\<close> is
  \<open>Global_el1_timer_instance\<close>). \<open>cntfrq_el0\<close> is the value the \<open>mrs\<close> in
  \<open>get_timer_frequency_hz\<close> returns. \<open>frequency_hz\<close> is an \<open>unsigned int\<close>, converted to
  64 bits for the unsigned division.
\<close>

definition GenericTimer_init ::
  "uint32 \<Rightarrow> fn_ptr \<Rightarrow> void_ptr \<Rightarrow> uint64 \<Rightarrow> machine \<Rightarrow> outcome" where
  "GenericTimer_init frequency_hz h c cntfrq_el0 m0 =
    (if frequency_hz = 0
     then Returns (kprintf ''GenericTimer: Cannot initialize with 0 Hz frequency.'' m0)
     else
       (let m1 = m0\<lparr>global_el1_timer_instance :=
                      (global_el1_timer_instance m0)\<lparr>user_handler := h, user_context := c\<rparr>\<rparr>
        in
        case get_interrupt_controller of
          None \<Rightarrow>
            panic (Some ''Timer init failed: no IC.'')
              (kprintf ''GenericTimer: Interrupt controller not available!'' m1)
        | Some G_gic_driver \<Rightarrow>
            (case register_handler (irq_number (global_el1_timer_instance m1))
                    Generic_timer_irq_trampoline Global_el1_timer_instance m1 of
               (False, m2) \<Rightarrow>
                 panic (Some ''Timer init failed: GIC registration.'')
                   (kprintf ''GenericTimer: Failed to register IRQ %u with GIC.'' m2)
             | (True, m2) \<Rightarrow>
                 (let m3 = kprintf ''GenericTimer: Registered handler for IRQ %u.'' m2;
                      m4 = emit (Mrs CNTFRQ_EL0) m3;
                      counter_freq = cntfrq_el0
                  in
                  if counter_freq = 0
                  then panic (Some ''Timer init failed: CNTFRQ_EL0 is 0.'')
                         (kprintf ''GenericTimer: Counter frequency (CNTFRQ_EL0) is 0! Cannot set timer.'' m4)
                  else
                    (let m5 = kprintf ''GenericTimer: CNTFRQ_EL0 = %llu Hz.'' m4;
                         ticks0 = counter_freq div ucast frequency_hz;
                         m6 = (if ticks0 = 0
                               then kprintf ''GenericTimer: Calculated ticks are 0 (frequency too high or counter too slow).'' m5
                               else m5);
                         ticks = (if ticks0 = 0 then 1 else ticks0);
                         m7 = kprintf ''GenericTimer: Setting interval to %llu ticks for %u Hz.'' m6;
                         m8 = set_interval_ticks ticks m7;
                         m9 = set_control True False m8;
                         m10 = enable_irq (irq_number (global_el1_timer_instance m9)) m9
                     in Returns (kprintf ''GenericTimer initialized for %u Hz (IRQ %u).'' m10))))))"

text \<open>
  \<open>GenericTimer::handle_interrupt\<close> on the global timer instance. The user handler is
  called through its pointer; the end of interrupt is signalled in the machine the
  handler left.
\<close>

definition handle_interrupt :: "handler_code \<Rightarrow> machine \<Rightarrow> outcome" where
  "handle_interrupt code m0 =
    (let t = global_el1_timer_instance m0;
         m1 = (if current_interval_ticks t > 0
               then emit (Msr CNTP_TVAL_EL0 (current_interval_ticks t)) m0
               else set_control False True m0)
     in
     case (if user_handler t \<noteq> Nullfn
           then code (user_handler t) (irq_number t) (user_context t)
                  (emit (CallHandler (user_handler t) (irq_number t) (user_context t)) m1)
           else Returns m1) of
       Halts mh \<Rightarrow> Halts mh
     | Returns m2 \<Rightarrow>
         (case get_interrupt_controller of
            Some G_gic_driver \<Rightarrow>
              Returns (end_of_interrupt (irq_number (global_el1_timer_instance m2)) m2)
          | None \<Rightarrow> Returns m2))"

section \<open>MMU (arch/arm/core/mmu.cpp, mmu.h)\<close>

definition PTE_VALID :: uint64 where "PTE_VALID = push_bit 0 1"
definition PTE_TABLE_OR_PAGE :: uint64 where "PTE_TABLE_OR_PAGE = push_bit 1 1"
definition PTE_ATTR_INDX :: "uint64 \<Rightarrow> uint64" where "PTE_ATTR_INDX idx = push_bit 2 (idx AND 0b111)"
definition PTE_AP_EL1_RW_EL0_NONE :: uint64 where "PTE_AP_EL1_RW_EL0_NONE = push_bit 6 0b00"
definition PTE_SH_INNER_SHAREABLE :: uint64 where "PTE_SH_INNER_SHAREABLE = push_bit 8 0b11"
definition PTE_AF :: uint64 where "PTE_AF = push_bit 10 1"
definition PTE_PXN :: uint64 where "PTE_PXN = push_bit 53 1"
definition PTE_UXN :: uint64 where "PTE_UXN = push_bit 54 1"

definition MAIR_IDX_DEVICE_NGNRNE :: uint32 where "MAIR_IDX_DEVICE_NGNRNE = 0"
definition MAIR_IDX_NORMAL_C :: uint32 where "MAIR_IDX_NORMAL_C = 2"

definition PAGE_TABLE_ENTRIES :: nat where "PAGE_TABLE_ENTRIES = 512"
definition PAGE_SIZE_2MB :: uint64 where "PAGE_SIZE_2MB = 2 * 1024 * 1024"
definition PAGE_SIZE_1GB :: uint64 where "PAGE_SIZE_1GB = 1 * 1024 * 1024 * 1024"

definition RPI4_PERIPHERAL_BASE_PHYS :: uintptr where "RPI4_PERIPHERAL_BASE_PHYS = 0xFE000000"
definition RPI4_PERIPHERAL_END_PHYS :: uintptr where "RPI4_PERIPHERAL_END_PHYS = 0xFFFFFFFF"

text \<open>
  Addresses fixed by the linker and not by the source: the \<open>KERNEL_START\<close> and
  \<open>KERNEL_END\<close> symbols and the addresses of the two second-level tables (what
  \<open>get_physical_address\<close> returns for them).
\<close>

record linker_symbols =
  KERNEL_START :: uintptr
  KERNEL_END :: uintptr
  l2_pt0_phys :: uintptr
  l2_pt1_phys :: uintptr

text \<open>The body of the first loop of \<open>setup_page_tables\<close>: the descriptor stored at index \<open>i\<close>.\<close>

definition l2_table_0_entry :: "linker_symbols \<Rightarrow> nat \<Rightarrow> uint64" where
  "l2_table_0_entry lnk i =
    (let current_pa = (of_nat i :: uintptr) * PAGE_SIZE_2MB;
         flags0 = PTE_VALID OR PTE_AF OR PTE_SH_INNER_SHAREABLE;
         flags =
           (if current_pa \<ge> RPI4_PERIPHERAL_BASE_PHYS
                \<and> (current_pa + PAGE_SIZE_2MB - 1) \<le> RPI4_PERIPHERAL_END_PHYS
            then ((flags0 OR PTE_ATTR_INDX (ucast MAIR_IDX_DEVICE_NGNRNE))
                    OR PTE_AP_EL1_RW_EL0_NONE) OR (PTE_PXN OR PTE_UXN)
            else if (current_pa \<ge> KERNEL_START lnk \<and> current_pa < KERNEL_END lnk)
                  \<or> ((current_pa + PAGE_SIZE_2MB - 1) \<ge> KERNEL_START lnk
                       \<and> (current_pa + PAGE_SIZE_2MB - 1) < KERNEL_END lnk)
            then (((flags0 OR PTE_ATTR_INDX (ucast MAIR_IDX_NORMAL_C))
                    OR PTE_AP_EL1_RW_EL0_NONE) AND NOT PTE_PXN) OR PTE_UXN
            else ((flags0 OR PTE_ATTR_INDX (ucast MAIR_IDX_NORMAL_C))
                    OR PTE_AP_EL1_RW_EL0_NONE) OR (PTE_PXN OR PTE_UXN))
     in current_pa OR flags)"

text \<open>The body of the second loop.\<close>

definition l2_table_1_entry :: "nat \<Rightarrow> uint64" where
  "l2_table_1_entry i =
    (let va_base_for_this_table = PAGE_SIZE_1GB;
         current_pa = va_base_for_this_table + (of_nat i :: uintptr) * PAGE_SIZE_2MB;
         flags0 = PTE_VALID OR PTE_AF OR PTE_SH_INNER_SHAREABLE;
         flags =
           (if current_pa \<ge> RPI4_PERIPHERAL_BASE_PHYS
                \<and> (current_pa + PAGE_SIZE_2MB - 1) \<le> RPI4_PERIPHERAL_END_PHYS
            then ((flags0 OR PTE_ATTR_INDX (ucast MAIR_IDX_DEVICE_NGNRNE))
                    OR PTE_AP_EL1_RW_EL0_NONE) OR (PTE_PXN OR PTE_UXN)
            else ((flags0 OR PTE_ATTR_INDX (ucast MAIR_IDX_NORMAL_C))
                    OR PTE_AP_EL1_RW_EL0_NONE) OR (PTE_PXN OR PTE_UXN))
     in current_pa OR flags)"

text \<open>The two \<open>for\<close> loops, from index \<open>i\<close> on.\<close>

function fill_l2_table_0 :: "linker_symbols \<Rightarrow> nat \<Rightarrow> uint64 list \<Rightarrow> uint64 list" where
  "fill_l2_table_0 lnk i tbl =
    (if i < PAGE_TABLE_ENTRIES
     then fill_l2_table_0 lnk (Suc i) (tbl[i := l2_table_0_entry lnk i])
     else tbl)"
  by pat_completeness auto
termination
  by (relation "measure (\<lambda>(lnk, i, tbl). PAGE_TABLE_ENTRIES - i)") auto

function fill_l2_table_1 :: "nat \<Rightarrow> uint64 list \<Rightarrow> uint64 list" where
  "fill_l2_table_1 i tbl =
    (if i < PAGE_TABLE_ENTRIES
     then fill_l2_table_1 (Suc i) (tbl[i := l2_table_1_entry i])
     else tbl)"
  by pat_completeness auto
termination
  by (relation "measure (\<lambda>(i, tbl). PAGE_TABLE_ENTRIES - i)") auto

declare fill_l2_table_0.simps [simp del] fill_l2_table_1.simps [simp del]

definition setup_page_tables :: "linker_symbols \<Rightarrow> machine \<Rightarrow> machine" where
  "setup_page_tables lnk m0 =
    (let m1 = kprintf ''MMU: Setting up page tables...'' m0;
         m2 = m1\<lparr>l1_page_table := replicate PAGE_TABLE_ENTRIES 0,
                 l2_page_table_0 := replicate PAGE_TABLE_ENTRIES 0,
                 l2_page_table_1 := replicate PAGE_TABLE_ENTRIES 0\<rparr>;
         m3 = m2\<lparr>l1_page_table :=
                   (l1_page_table m2)[0 := (l2_pt0_phys lnk OR PTE_VALID) OR PTE_TABLE_OR_PAGE]\<rparr>;
         m4 = m3\<lparr>l1_page_table :=
                   (l1_page_table m3)[1 := (l2_pt1_phys lnk OR PTE_VALID) OR PTE_TABLE_OR_PAGE]\<rparr>;
         m5 = kprintf ''MMU: L1 table populated (0: -> L2_0@0x%llx, 1: -> L2_1@0x%llx)'' m4;
         m6 = m5\<lparr>l2_page_table_0 := fill_l2_table_0 lnk 0 (l2_page_table_0 m5)\<rparr>;
         m7 = kprintf ''MMU: L2_TABLE_0 (0GB-1GB) populated.'' m6;
         m8 = m7\<lparr>l2_page_table_1 := fill_l2_table_1 0 (l2_page_table_1 m7)\<rparr>
     in kprintf ''MMU: L2_TABLE_1 (1GB-2GB) populated.'' m8)"

text \<open>
  \<open>enable_mmu_and_caches\<close>. The three reads of \<open>SCTLR_EL1\<close> (before the modification,
  inside the argument list of the log line, and after the write) are inputs.
\<close>

definition enable_mmu_and_caches :: "uint64 \<Rightarrow> uint64 \<Rightarrow> uint64 \<Rightarrow> machine \<Rightarrow> outcome" where
  "enable_mmu_and_caches sctlr_read sctlr_logged final_sctlr m0 =
    (let m1 = kprintf ''MMU: Enabling MMU and caches...'' m0;
         m2 = emit (Asm ''isb'') (emit (Asm ''dsb ish'') m1);
         m3 = emit (Asm ''tlbi vmalle1is'') m2;
         m4 = emit (Asm ''isb'') (emit (Asm ''dsb ish'') m3);
         m5 = emit (Mrs SCTLR_EL1) m4;
         sctlr_val0 = sctlr_read;
         sctlr_val1 = sctlr_val0 OR push_bit 0 1;
         sctlr_val2 = sctlr_val1 OR push_bit 2 1;
         sctlr_val = sctlr_val2 OR push_bit 12 1;
         m6 = kprintf ''MMU: Writing 0x%llx to SCTLR_EL1 (current: read 0x%llx before modification)''
                (emit (Mrs SCTLR_EL1) m5);
         m7 = emit (Msr SCTLR_EL1 sctlr_val) m6;
         m8 = emit (Asm ''isb'') m7;
         m9 = kprintf ''MMU: MMU and Caches Enabled (SCTLR_EL1 written).'' m8;
         m10 = emit (Mrs SCTLR_EL1) m9;
         m11 = kprintf ''MMU: SCTLR_EL1 after enable: 0x%llx'' m10
     in if final_sctlr AND 1 = 0 then panic (Some ''MMU FAILED TO ENABLE!'') m11
        else Returns m11)"

section \<open>The machine at boot\<close>

text \<open>
  The state the static constructors leave: the GIC driver constructed on its two base
  addresses, the timer constructed, the page tables zero (they are in \<open>.bss\<close>), nothing
  traced yet.
\<close>

definition boot_machine :: machine where
  "boot_machine =
    \<lparr>g_gic_driver = GICDriver_ctor GICD_BASE GICC_BASE,
     global_el1_timer_instance = GenericTimer_ctor,
     l1_page_table = replicate PAGE_TABLE_ENTRIES 0,
     l2_page_table_0 = replicate PAGE_TABLE_ENTRIES 0,
     l2_page_table_1 = replicate PAGE_TABLE_ENTRIES 0,
     trace = []\<rparr>"

section \<open>Observations on states and traces\<close>

text \<open>
  The output-address field of a level-2 block descriptor: bits 47:21 (\<open>mmu.h\<close>: ``For 2MB
  block (Level 2): Output address bits 47:21'').
\<close>

definition output_address :: "uint64 \<Rightarrow> uint64" where
  "output_address d = d AND 0x0000FFFFFFE00000"

text \<open>The values written to a system register, in order.\<close>

fun msr_writes :: "sysreg \<Rightarrow> event list \<Rightarrow> uint64 list" where
  "msr_writes r [] = []"
| "msr_writes r (Msr r' v # es) = (if r' = r then v # msr_writes r es else msr_writes r es)"
| "msr_writes r (e # es) = msr_writes r es"

section \<open>Concrete handlers and machines for the examples\<close>

text \<open>A callee that returns at once.\<close>

definition code_returns :: handler_code where
  "code_returns f irq_num c m = Returns m"

text \<open>A callee that signals the end of its interrupt through the controller and returns.\<close>

definition code_eoi :: handler_code where
  "code_eoi f irq_num c m = Returns (end_of_interrupt irq_num m)"


text \<open>
  The boot machine with a controller of 64 lines (\<open>GICDriver::init\<close> stores
  \<open>((typer & 0x1F) + 1) * 32\<close>, which is 64 when \<open>GICD_TYPER\<close> reads 1), and then with
  a handler registered on line 30.
\<close>

definition machine_64_lines :: machine where
  "machine_64_lines =
    boot_machine\<lparr>g_gic_driver := (g_gic_driver boot_machine)\<lparr>num_irq_lines := 64\<rparr>\<rparr>"

definition machine_line_30 :: machine where
  "machine_line_30 = snd (register_handler 30 (Extern_fn 1) (Extern_obj 1) machine_64_lines)"

text \<open>A timer whose stored reload value is zero although a user handler is stored.\<close>

definition machine_zero_reload :: machine where
  "machine_zero_reload =
    boot_machine\<lparr>global_el1_timer_instance :=
      (global_el1_timer_instance boot_machine)\<lparr>user_handler := Extern_fn 1\<rparr>\<rparr>"

text \<open>Linker symbols with the kernel image at \<open>0x80000 .. 0x200000\<close>.\<close>

definition example_symbols :: linker_symbols where
  "example_symbols =
    \<lparr>KERNEL_START = 0x80000, KERNEL_END = 0x200000,
     l2_pt0_phys = 0x100000, l2_pt1_phys = 0x101000\<rparr>"

section \<open>Auxiliary facts\<close>

lemma trace_emit: "trace (emit e m) = trace m @ [e]"
  by (simp add: emit_def)

lemma trace_kprintf: "trace (kprintf s m) = trace m @ [Kprintf s]"
  by (simp add: kprintf_def emit_def)

lemma timer_emit: "global_el1_timer_instance (emit e m) = global_el1_timer_instance m"
  by (simp add: emit_def)

lemma timer_kprintf: "global_el1_timer_instance (kprintf s m) = global_el1_timer_instance m"
  by (simp add: kprintf_def emit_def)

lemma msr_writes_append: "msr_writes r (xs @ ys) = msr_writes r xs @ msr_writes r ys"
  by (induction r xs rule: msr_writes.induct) simp_all

text \<open>The loop of \<open>Kernel::panic\<close> is never left, so the routine never returns.\<close>

lemma wfi_loop_never_returns: "wfi_loop m = None"
proof -
  have "False" if "wfi_loop m = Some y" for y
    by (rule wfi_loop.raw_induct [where P = "\<lambda>_ _. False", OF _ that]) blast
  then show ?thesis by (cases "wfi_loop m") auto
qed

lemma returned_panic: "returned (panic msg m) = False"
  by (simp add: panic_def Let_def wfi_loop_never_returns)

lemma msr_writes_panic: "msr_writes r (trace (machine_of (panic msg m))) = msr_writes r (trace m)"
  by (cases msg)
    (simp_all add: panic_def Let_def wfi_loop_never_returns trace_emit msr_writes_append)

lemma get_set_slot:
  "unat i < length (handlers (g_gic_driver m)) \<Longrightarrow> get_slot (set_slot i r m) i = r"
  by (simp add: get_slot_def set_slot_def)


lemma ctor_slot:
  "i < MAX_IRQS \<Longrightarrow> handlers (GICDriver_ctor d c) ! unat i = empty_registration"
  by (simp add: GICDriver_ctor_def word_less_nat_alt)

lemma machine_64_lines_simps:
  "trace machine_64_lines = []"
  "irq_number (global_el1_timer_instance machine_64_lines) = 30"
  "get_slot machine_64_lines 30 = empty_registration"
  by (simp_all add: machine_64_lines_def boot_machine_def GenericTimer_ctor_def get_slot_def
      EL1_PHYSICAL_TIMER_IRQ_def GICDriver_ctor_def MAX_IRQS_def)

lemma machine_line_30_eq:
  "machine_line_30 = machine_64_lines\<lparr>g_gic_driver := (g_gic_driver machine_64_lines)
      \<lparr>handlers := (handlers (g_gic_driver machine_64_lines))
          [30 := \<lparr>handler = Extern_fn 1, context_p = Extern_obj 1, is_registered = True\<rparr>]\<rparr>\<rparr>"
  by (simp add: machine_line_30_def register_handler_def machine_64_lines_def boot_machine_def
      GICDriver_ctor_def MAX_IRQS_def get_slot_def set_slot_def empty_registration_def)

lemma machine_line_30_simps:
  "get_slot machine_line_30 30 = \<lparr>handler = Extern_fn 1, context_p = Extern_obj 1, is_registered = True\<rparr>"
  "get_slot machine_line_30 31 = empty_registration"
  "num_irq_lines (g_gic_driver machine_line_30) = 64"
  "gicc_base_addr (g_gic_driver machine_line_30) = GICC_BASE"
  "trace machine_line_30 = []"
  by (simp_all add: machine_line_30_eq get_slot_def machine_64_lines_def boot_machine_def
      GICDriver_ctor_def MAX_IRQS_def)

section \<open>Interrupt dispatch\<close>




text \<open>
  Claim C3. When the interrupt ID read from \<open>GICC_IAR\<close> lies in 1020..1023,
  \<open>dispatch_interrupt\<close> does exactly this, whatever the handler table holds: the read of
  \<open>GICC_IAR\<close>, one log line, and, unless the ID is 1023, one write of the ID to
  \<open>GICC_EOIR\<close>. No handler is called.
\<close>

theorem dispatch_interrupt_spurious:
  fixes code :: handler_code and iar_val dummy :: uint32 and m :: machine
  defines "irq_id \<equiv> iar_val AND 0x3FF"
  assumes lo: "1020 \<le> irq_id" and hi: "irq_id \<le> 1023"
  shows "dispatch_interrupt code iar_val dummy m =
     Returns (m\<lparr>trace := trace m @
       [MmioRead (gicc_base_addr (g_gic_driver m) + GICC_IAR),
        Kprintf ''GIC: Spurious interrupt or special ID %u. Ignoring.''] @
       (if irq_id = 1023 then []
        else [MmioWrite (gicc_base_addr (g_gic_driver m) + GICC_EOIR) irq_id])\<rparr>)"
  using lo hi unfolding irq_id_def
  by (simp add: dispatch_interrupt_def Let_def gicc_read_def gicc_write_def kprintf_def emit_def)

text \<open>The IDs 1023 (no write to \<open>GICC_EOIR\<close>) and 1021 (one write).\<close>

theorem dispatch_interrupt_spurious_witness:
  "(1020 :: uint32) \<le> 1023 AND 0x3FF \<and> (1021 :: uint32) AND 0x3FF \<le> 1023
   \<and> dispatch_interrupt code_eoi 1023 0 machine_line_30 =
       Returns (machine_line_30\<lparr>trace :=
         [MmioRead (GICC_BASE + GICC_IAR),
          Kprintf ''GIC: Spurious interrupt or special ID %u. Ignoring.'']\<rparr>)
   \<and> dispatch_interrupt code_eoi 1021 0 machine_line_30 =
       Returns (machine_line_30\<lparr>trace :=
         [MmioRead (GICC_BASE + GICC_IAR),
          Kprintf ''GIC: Spurious interrupt or special ID %u. Ignoring.'',
          MmioWrite (GICC_BASE + GICC_EOIR) 1021]\<rparr>)"
proof -
  have lo3: "(1020 :: uint32) \<le> 1023 AND 0x3FF" and hi3: "(1023 :: uint32) AND 0x3FF \<le> 1023"
    and lo1: "(1020 :: uint32) \<le> 1021 AND 0x3FF" and hi1: "(1021 :: uint32) AND 0x3FF \<le> 1023"
    by simp_all
  show ?thesis
    using lo3 hi1
      dispatch_interrupt_spurious [OF lo3 hi3, of code_eoi 0 machine_line_30]
      dispatch_interrupt_spurious [OF lo1 hi1, of code_eoi 0 machine_line_30]
    by (simp add: machine_line_30_simps)
qed

section \<open>Handler registry\<close>

text \<open>
  Claim C4. After a successful \<open>register_handler(line, h1, c1)\<close>, a second
  \<open>register_handler(line, h2, c2)\<close> returns false, leaves the whole driver state as it
  was, and the slot of the line still holds \<open>h1\<close>, \<open>c1\<close> and \<open>is_registered = true\<close>.
  (The handler array has its declared size \<open>MAX_IRQS\<close>.)
\<close>

theorem register_handler_twice:
  assumes wf: "length (handlers (g_gic_driver m)) = unat MAX_IRQS"
    and first: "register_handler line h1 c1 m = (True, m1)"
  shows "fst (register_handler line h2 c2 m1) = False
       \<and> g_gic_driver (snd (register_handler line h2 c2 m1)) = g_gic_driver m1
       \<and> get_slot (snd (register_handler line h2 c2 m1)) line
           = \<lparr>handler = h1, context_p = c1, is_registered = True\<rparr>"
proof -
  from first have lt: "line < MAX_IRQS"
    and m1: "m1 = set_slot line \<lparr>handler = h1, context_p = c1, is_registered = True\<rparr> m"
    by (auto simp: register_handler_def split: if_splits)
  from lt wf have "unat line < length (handlers (g_gic_driver m))"
    by (simp add: word_less_nat_alt)
  then have slot: "get_slot m1 line = \<lparr>handler = h1, context_p = c1, is_registered = True\<rparr>"
    unfolding m1 by (rule get_set_slot)
  show ?thesis using lt slot
    by (simp add: register_handler_def kprintf_def emit_def get_slot_def)
qed

text \<open>Two registrations on line 30 of the boot machine.\<close>

theorem register_handler_twice_witness:
  "length (handlers (g_gic_driver boot_machine)) = unat MAX_IRQS
   \<and> fst (register_handler 30 (Extern_fn 1) (Extern_obj 1) boot_machine) = True
   \<and> fst (register_handler 30 (Extern_fn 2) (Extern_obj 2)
        (snd (register_handler 30 (Extern_fn 1) (Extern_obj 1) boot_machine))) = False
   \<and> get_slot (snd (register_handler 30 (Extern_fn 2) (Extern_obj 2)
        (snd (register_handler 30 (Extern_fn 1) (Extern_obj 1) boot_machine)))) 30
       = \<lparr>handler = Extern_fn 1, context_p = Extern_obj 1, is_registered = True\<rparr>"
proof -
  have wf: "length (handlers (g_gic_driver boot_machine)) = unat MAX_IRQS"
    by (simp add: boot_machine_def GICDriver_ctor_def)
  have ok: "fst (register_handler 30 (Extern_fn 1) (Extern_obj 1) boot_machine) = True"
    by (simp add: register_handler_def boot_machine_def GICDriver_ctor_def MAX_IRQS_def
        get_slot_def empty_registration_def)
  then have first: "register_handler 30 (Extern_fn 1) (Extern_obj 1) boot_machine
      = (True, snd (register_handler 30 (Extern_fn 1) (Extern_obj 1) boot_machine))"
    by (simp add: prod_eq_iff)
  show ?thesis
    using wf ok register_handler_twice [OF wf first, of "Extern_fn 2" "Extern_obj 2"] by simp
qed

text \<open>
  Claim C5. On a driver as its constructor leaves it, for every line below \<open>MAX_IRQS\<close>:
  \<open>register_handler(line, h, c)\<close> succeeds, the following \<open>unregister_handler(line)\<close>
  succeeds, and afterwards the slot of the line is the never-registered slot (null handler,
  null context, not registered), as it was before; the whole driver state is as before.
\<close>

theorem register_then_unregister:
  assumes lt: "line < MAX_IRQS"
    and init: "g_gic_driver m = GICDriver_ctor dist_base cpu_if_base"
  shows "fst (register_handler line h c m) = True
       \<and> fst (unregister_handler line (snd (register_handler line h c m))) = True
       \<and> get_slot (snd (unregister_handler line (snd (register_handler line h c m)))) line
           = empty_registration
       \<and> get_slot m line = empty_registration
       \<and> g_gic_driver (snd (unregister_handler line (snd (register_handler line h c m))))
           = g_gic_driver m"
proof -
  let ?r = "\<lparr>handler = h, context_p = c, is_registered = True\<rparr>"
  have len: "unat line < length (handlers (g_gic_driver m))"
    using lt by (simp add: init GICDriver_ctor_def word_less_nat_alt)
  have s0: "get_slot m line = empty_registration"
    using lt by (simp add: get_slot_def init ctor_slot)
  have reg: "register_handler line h c m = (True, set_slot line ?r m)"
    using lt s0 by (simp add: register_handler_def empty_registration_def)
  have s1: "get_slot (set_slot line ?r m) line = ?r"
    using len by (rule get_set_slot)
  have unreg: "unregister_handler line (set_slot line ?r m)
      = (True, set_slot line empty_registration (set_slot line ?r m))"
    using lt s1 by (simp add: unregister_handler_def empty_registration_def)
  have len': "unat line < length (handlers (g_gic_driver (set_slot line ?r m)))"
    using len by (simp add: set_slot_def)
  have s2: "get_slot (set_slot line empty_registration (set_slot line ?r m)) line
      = empty_registration"
    using len' by (rule get_set_slot)
  have "(handlers (g_gic_driver m))[unat line := empty_registration] = handlers (g_gic_driver m)"
    using s0 by (simp add: get_slot_def list_update_same_conv len)
  then have restored:
    "g_gic_driver (set_slot line empty_registration (set_slot line ?r m)) = g_gic_driver m"
    by (simp add: set_slot_def)
  show ?thesis
    by (simp add: reg unreg s2 s0 restored)
qed

text \<open>Line 30 of the boot machine.\<close>

theorem register_then_unregister_witness:
  "(30 :: uint32) < MAX_IRQS
   \<and> g_gic_driver boot_machine = GICDriver_ctor GICD_BASE GICC_BASE
   \<and> get_slot (snd (unregister_handler 30
        (snd (register_handler 30 (Extern_fn 1) (Extern_obj 1) boot_machine)))) 30
       = \<lparr>handler = Nullfn, context_p = Nullptr, is_registered = False\<rparr>"
proof -
  have lt: "(30 :: uint32) < MAX_IRQS" by (simp add: MAX_IRQS_def)
  have init: "g_gic_driver boot_machine = GICDriver_ctor GICD_BASE GICC_BASE"
    by (simp add: boot_machine_def)
  show ?thesis
    using lt init register_then_unregister [OF lt init, of "Extern_fn 1" "Extern_obj 1"]
    by (simp add: empty_registration_def)
qed

section \<open>IRQ vector handler and the controller accessor\<close>

text \<open>
  Claim C9, as the code has it. \<open>get_interrupt_controller\<close> never returns null: it
  returns the address of the statically allocated GIC driver, whether or not
  \<open>gic_init_global\<close> has run. So \<open>c_irq_handler\<close> always calls \<open>dispatch_interrupt\<close>,
  which reads \<open>GICC_IAR\<close>. The branch of \<open>c_irq_handler\<close> for a null controller only logs
  a warning and returns, with no hardware access.
\<close>

theorem c_irq_handler_controller:
  "get_interrupt_controller = Some G_gic_driver
   \<and> c_irq_handler code iar_val m = dispatch_interrupt code iar_val 0 m
   \<and> c_irq_handler_body None code iar_val m
       = Returns (m\<lparr>trace := trace m @ [Kprintf ''IRQ: No interrupt controller available!'']\<rparr>)"
  by (simp add: get_interrupt_controller_def c_irq_handler_def c_irq_handler_body_def
      kprintf_def emit_def)

text \<open>An instance on the machine with a handler on line 30.\<close>

theorem c_irq_handler_controller_witness:
  "c_irq_handler code_eoi 1023 machine_line_30 = dispatch_interrupt code_eoi 1023 0 machine_line_30
   \<and> c_irq_handler_body None code_eoi 1023 machine_line_30
       = Returns (machine_line_30\<lparr>trace := [Kprintf ''IRQ: No interrupt controller available!'']\<rparr>)"
  using c_irq_handler_controller [of code_eoi 1023 machine_line_30]
  by (simp add: machine_line_30_simps)

text \<open>
  On the boot machine, before any initialisation, the accessor is not null and
  \<open>c_irq_handler\<close> reads \<open>GICC_IAR\<close> instead of logging the warning.
\<close>

theorem c_irq_handler_counterexample:
  "get_interrupt_controller \<noteq> None
   \<and> c_irq_handler code_returns 1023 boot_machine
       = Returns (boot_machine\<lparr>trace :=
           [MmioRead (GICC_BASE + GICC_IAR),
            Kprintf ''GIC: Spurious interrupt or special ID %u. Ignoring.'']\<rparr>)"
  by (simp add: get_interrupt_controller_def c_irq_handler_def c_irq_handler_body_def
      dispatch_interrupt_def Let_def gicc_read_def kprintf_def emit_def boot_machine_def
      GICDriver_ctor_def)

section \<open>Generic timer\<close>

lemma trace_enable_irq: "msr_writes r (trace (enable_irq i m)) = msr_writes r (trace m)"
  by (simp add: enable_irq_def gicd_write_def trace_emit trace_kprintf msr_writes_append)

lemma timer_enable_irq: "global_el1_timer_instance (enable_irq i m) = global_el1_timer_instance m"
  by (simp add: enable_irq_def gicd_write_def timer_emit timer_kprintf)

lemma trace_set_control:
  "msr_writes CNTP_TVAL_EL0 (trace (set_control e i m)) = msr_writes CNTP_TVAL_EL0 (trace m)"
  by (simp add: set_control_def Let_def trace_emit msr_writes_append)

lemma timer_set_control: "global_el1_timer_instance (set_control e i m) = global_el1_timer_instance m"
  by (simp add: set_control_def Let_def timer_emit)

lemma trace_set_interval_ticks:
  "msr_writes CNTP_TVAL_EL0 (trace (set_interval_ticks t m))
     = msr_writes CNTP_TVAL_EL0 (trace m) @ [t]"
  by (simp add: set_interval_ticks_def trace_emit msr_writes_append)

lemma timer_set_interval_ticks:
  "current_interval_ticks (global_el1_timer_instance (set_interval_ticks t m)) = t"
  by (simp add: set_interval_ticks_def timer_emit)

lemma unat_ucast_32_64: "unat (ucast (w :: uint32) :: uint64) = unat w"
proof -
  have "unat w < 2 ^ 32" using unsigned_less [of w] by simp
  then have "unat w < 2 ^ 64" by simp
  then show ?thesis by (simp add: unsigned_ucast_eq take_bit_nat_eq_self)
qed

lemma machine_zero_reload_simps:
  "current_interval_ticks (global_el1_timer_instance machine_zero_reload) = 0"
  "user_handler (global_el1_timer_instance machine_zero_reload) = Extern_fn 1"
  "user_context (global_el1_timer_instance machine_zero_reload) = Nullptr"
  "irq_number (global_el1_timer_instance machine_zero_reload) = 30"
  "gicc_base_addr (g_gic_driver machine_zero_reload) = GICC_BASE"
  "trace machine_zero_reload = []"
  by (simp_all add: machine_zero_reload_def boot_machine_def GenericTimer_ctor_def
      EL1_PHYSICAL_TIMER_IRQ_def GICDriver_ctor_def)

text \<open>
  Claim C6, as the code has it. \<open>GenericTimer::init\<close> with \<open>frequency_hz = 0\<close> is not
  fatal: it logs one line and returns to the caller, with the timer and the driver
  untouched. The halt routine is reached by the other failures: with a nonzero frequency,
  \<open>init\<close> does not return when the registration of its line fails (line out of range or
  already registered) or when the counter frequency reads as zero; in each case it ends in
  \<open>Kernel::panic\<close> with the message of that failure, after its log line.
\<close>

theorem GenericTimer_init_failures:
  fixes m :: machine and h :: fn_ptr and c :: void_ptr
  defines "irq \<equiv> irq_number (global_el1_timer_instance m)"
  defines "reg \<equiv> register_handler irq Generic_timer_irq_trampoline Global_el1_timer_instance
     (m\<lparr>global_el1_timer_instance :=
          (global_el1_timer_instance m)\<lparr>user_handler := h, user_context := c\<rparr>\<rparr>)"
  shows "GenericTimer_init 0 h c cntfrq_el0 m
           = Returns (m\<lparr>trace := trace m @
               [Kprintf ''GenericTimer: Cannot initialize with 0 Hz frequency.'']\<rparr>)
       \<and> (frequency_hz \<noteq> 0 \<and> (MAX_IRQS \<le> irq \<or> is_registered (get_slot m irq))
            \<longrightarrow> \<not> returned (GenericTimer_init frequency_hz h c cntfrq_el0 m))
       \<and> (frequency_hz \<noteq> 0 \<longrightarrow> \<not> returned (GenericTimer_init frequency_hz h c 0 m))
       \<and> (frequency_hz \<noteq> 0 \<and> (MAX_IRQS \<le> irq \<or> is_registered (get_slot m irq))
            \<longrightarrow> GenericTimer_init frequency_hz h c cntfrq_el0 m
                 = panic (Some ''Timer init failed: GIC registration.'')
                     (kprintf ''GenericTimer: Failed to register IRQ %u with GIC.'' (snd reg)))
       \<and> (frequency_hz \<noteq> 0 \<and> irq < MAX_IRQS \<and> \<not> is_registered (get_slot m irq)
            \<longrightarrow> GenericTimer_init frequency_hz h c 0 m
                 = panic (Some ''Timer init failed: CNTFRQ_EL0 is 0.'')
                     (kprintf ''GenericTimer: Counter frequency (CNTFRQ_EL0) is 0! Cannot set timer.''
                        (emit (Mrs CNTFRQ_EL0)
                           (kprintf ''GenericTimer: Registered handler for IRQ %u.'' (snd reg)))))"
proof -
  have zero: "GenericTimer_init 0 h c cntfrq_el0 m
           = Returns (m\<lparr>trace := trace m @
               [Kprintf ''GenericTimer: Cannot initialize with 0 Hz frequency.'']\<rparr>)"
    by (simp add: GenericTimer_init_def kprintf_def emit_def)
  have regp: "GenericTimer_init frequency_hz h c cntfrq_el0 m
                 = panic (Some ''Timer init failed: GIC registration.'')
                     (kprintf ''GenericTimer: Failed to register IRQ %u with GIC.'' (snd reg))"
    if "frequency_hz \<noteq> 0" "MAX_IRQS \<le> irq \<or> is_registered (get_slot m irq)"
    using that unfolding irq_def reg_def
    by (auto simp: GenericTimer_init_def get_interrupt_controller_def register_handler_def
        Let_def get_slot_def)
  have cfp: "GenericTimer_init frequency_hz h c 0 m
                 = panic (Some ''Timer init failed: CNTFRQ_EL0 is 0.'')
                     (kprintf ''GenericTimer: Counter frequency (CNTFRQ_EL0) is 0! Cannot set timer.''
                        (emit (Mrs CNTFRQ_EL0)
                           (kprintf ''GenericTimer: Registered handler for IRQ %u.'' (snd reg))))"
    if "frequency_hz \<noteq> 0" "irq < MAX_IRQS" "\<not> is_registered (get_slot m irq)"
    using that unfolding irq_def reg_def
    by (auto simp: GenericTimer_init_def get_interrupt_controller_def register_handler_def
        Let_def get_slot_def)
  have reg: "\<not> returned (GenericTimer_init frequency_hz h c cntfrq_el0 m)"
    if "frequency_hz \<noteq> 0" "MAX_IRQS \<le> irq \<or> is_registered (get_slot m irq)"
    using regp [OF that] by (simp add: returned_panic)
  have cf: "\<not> returned (GenericTimer_init frequency_hz h c 0 m)" if "frequency_hz \<noteq> 0"
    using that
    by (auto simp: GenericTimer_init_def get_interrupt_controller_def register_handler_def
        returned_panic Let_def)
  show ?thesis using zero reg cf regp cfp by blast
qed

text \<open>
  Zero frequency on the 64-line machine; 100 Hz when line 30 is already taken; 100 Hz with
  a counter frequency of zero.
\<close>

theorem GenericTimer_init_failures_witness:
  "GenericTimer_init 0 (Extern_fn 1) Nullptr 1000000 machine_64_lines
     = Returns (machine_64_lines\<lparr>trace :=
         [Kprintf ''GenericTimer: Cannot initialize with 0 Hz frequency.'']\<rparr>)
   \<and> is_registered (get_slot machine_line_30 30)
   \<and> \<not> returned (GenericTimer_init 100 (Extern_fn 1) Nullptr 1000000 machine_line_30)
   \<and> \<not> returned (GenericTimer_init 100 (Extern_fn 1) Nullptr 0 machine_64_lines)"
proof -
  have irq: "irq_number (global_el1_timer_instance machine_line_30) = 30"
    by (simp add: machine_line_30_eq machine_64_lines_simps)
  show ?thesis
    using GenericTimer_init_failures [of "Extern_fn 1" Nullptr 1000000 machine_64_lines 100]
      GenericTimer_init_failures [of "Extern_fn 1" Nullptr 1000000 machine_line_30 100]
    by (simp add: machine_64_lines_simps machine_line_30_simps irq returned_panic MAX_IRQS_def
        empty_registration_def)
qed

text \<open>On the boot machine, \<open>init\<close> with frequency zero returns and nothing but the log line changes.\<close>

theorem GenericTimer_init_zero_frequency_counterexample:
  "GenericTimer_init 0 (Extern_fn 1) Nullptr 1000000 boot_machine
     = Returns (boot_machine\<lparr>trace :=
         [Kprintf ''GenericTimer: Cannot initialize with 0 Hz frequency.'']\<rparr>)
   \<and> returned (GenericTimer_init 0 (Extern_fn 1) Nullptr 1000000 boot_machine)"
  by (simp add: GenericTimer_init_def kprintf_def emit_def boot_machine_def)

text \<open>
  Claim C7, as the code has it. When \<open>handle_interrupt\<close> runs with a stored reload value
  of zero, the timer disables and masks itself (\<open>CNTP_CTL_EL0\<close> is written with ENABLE = 0
  and IMASK = 1, that is 2) and no reload value is written. The user callback is still
  called when one is stored; the end of interrupt is signalled when it returns. With no
  callback stored, the control write is followed by the end of interrupt alone.
\<close>

theorem handle_interrupt_zero_reload:
  fixes code :: handler_code and m :: machine
  defines "t \<equiv> global_el1_timer_instance m"
  assumes z: "current_interval_ticks t = 0"
  shows "(user_handler t = Nullfn \<longrightarrow>
           handle_interrupt code m =
             Returns (m\<lparr>trace := trace m @
               [Msr CNTP_CTL_EL0 2,
                MmioWrite (gicc_base_addr (g_gic_driver m) + GICC_EOIR) (irq_number t)]\<rparr>))
       \<and> (user_handler t \<noteq> Nullfn \<longrightarrow>
           handle_interrupt code m =
             (case code (user_handler t) (irq_number t) (user_context t)
                     (m\<lparr>trace := trace m @
                        [Msr CNTP_CTL_EL0 2,
                         CallHandler (user_handler t) (irq_number t) (user_context t)]\<rparr>) of
                Halts mh \<Rightarrow> Halts mh
              | Returns m2 \<Rightarrow>
                  Returns (end_of_interrupt (irq_number (global_el1_timer_instance m2)) m2)))"
  using z unfolding t_def
  by (simp add: handle_interrupt_def set_control_def Let_def emit_def
      get_interrupt_controller_def end_of_interrupt_def gicc_write_def split: outcome.split)

text \<open>With a callback stored, and on the boot machine, where none is.\<close>

theorem handle_interrupt_zero_reload_witness:
  "current_interval_ticks (global_el1_timer_instance machine_zero_reload) = 0
   \<and> handle_interrupt code_returns machine_zero_reload
     = Returns (machine_zero_reload\<lparr>trace :=
         [Msr CNTP_CTL_EL0 2, CallHandler (Extern_fn 1) 30 Nullptr,
          MmioWrite (GICC_BASE + GICC_EOIR) 30]\<rparr>)
   \<and> current_interval_ticks (global_el1_timer_instance boot_machine) = 0
   \<and> handle_interrupt code_returns boot_machine
     = Returns (boot_machine\<lparr>trace :=
         [Msr CNTP_CTL_EL0 2, MmioWrite (GICC_BASE + GICC_EOIR) 30]\<rparr>)"
proof -
  have z: "current_interval_ticks (global_el1_timer_instance machine_zero_reload) = 0"
    by (simp add: machine_zero_reload_simps)
  have zb: "current_interval_ticks (global_el1_timer_instance boot_machine) = 0"
    by (simp add: boot_machine_def GenericTimer_ctor_def)
  show ?thesis
    using z zb handle_interrupt_zero_reload [OF z, of code_returns]
      handle_interrupt_zero_reload [OF zb, of code_returns]
    by (simp add: machine_zero_reload_simps code_returns_def end_of_interrupt_def gicc_write_def
        emit_def)
      (simp add: boot_machine_def GenericTimer_ctor_def EL1_PHYSICAL_TIMER_IRQ_def
        GICDriver_ctor_def)
qed

text \<open>
  A timer with reload value zero and a callback stored: the callback is called (the
  \<open>CallHandler\<close> event between the control write and the end of interrupt).
\<close>

theorem handle_interrupt_zero_reload_counterexample:
  "current_interval_ticks (global_el1_timer_instance machine_zero_reload) = 0
   \<and> handle_interrupt code_returns machine_zero_reload
     = Returns (machine_zero_reload\<lparr>trace :=
         [Msr CNTP_CTL_EL0 2, CallHandler (Extern_fn 1) 30 Nullptr,
          MmioWrite (GICC_BASE + GICC_EOIR) 30]\<rparr>)"
  by (simp add: handle_interrupt_def machine_zero_reload_def boot_machine_def GenericTimer_ctor_def
      EL1_PHYSICAL_TIMER_IRQ_def set_control_def Let_def emit_def code_returns_def
      get_interrupt_controller_def end_of_interrupt_def gicc_write_def GICDriver_ctor_def)

text \<open>
  Claim C8. For a nonzero requested frequency and a counter frequency read as nonzero (the
  read is reached when the registration of the timer's line succeeds), \<open>init\<close> returns,
  and the reload value it stores and writes to \<open>CNTP_TVAL_EL0\<close>, once, is the quotient
  of the counter frequency by the requested frequency, or 1 when that quotient is zero. The
  quotient is the integer quotient of the two unsigned values.
\<close>

theorem GenericTimer_init_reload_value:
  fixes m :: machine and frequency_hz :: uint32 and cntfrq_el0 :: uint64
  defines "ticks0 \<equiv> cntfrq_el0 div ucast frequency_hz"
  assumes f: "frequency_hz \<noteq> 0" and cf: "cntfrq_el0 \<noteq> 0"
    and line: "irq_number (global_el1_timer_instance m) < MAX_IRQS"
    and free: "\<not> is_registered (get_slot m (irq_number (global_el1_timer_instance m)))"
  shows "returned (GenericTimer_init frequency_hz h c cntfrq_el0 m)
       \<and> current_interval_ticks (global_el1_timer_instance
            (machine_of (GenericTimer_init frequency_hz h c cntfrq_el0 m)))
           = (if ticks0 = 0 then 1 else ticks0)
       \<and> msr_writes CNTP_TVAL_EL0
            (trace (machine_of (GenericTimer_init frequency_hz h c cntfrq_el0 m)))
           = msr_writes CNTP_TVAL_EL0 (trace m) @ [if ticks0 = 0 then 1 else ticks0]
       \<and> unat ticks0 = unat cntfrq_el0 div unat frequency_hz"
proof -
  let ?m1 = "m\<lparr>global_el1_timer_instance :=
                      (global_el1_timer_instance m)\<lparr>user_handler := h, user_context := c\<rparr>\<rparr>"
  let ?irq = "irq_number (global_el1_timer_instance m)"
  have reg: "register_handler ?irq Generic_timer_irq_trampoline Global_el1_timer_instance ?m1
      = (True, set_slot ?irq \<lparr>handler = Generic_timer_irq_trampoline,
                  context_p = Global_el1_timer_instance, is_registered = True\<rparr> ?m1)"
    using line free by (simp add: register_handler_def get_slot_def)
  have tr: "trace (set_slot i r x) = trace x" for i r x
    by (simp add: set_slot_def)
  have d: "unat (cntfrq_el0 div ucast frequency_hz) = unat cntfrq_el0 div unat frequency_hz"
    by (simp add: unat_div unat_ucast_32_64)
  show ?thesis
    using f cf unfolding ticks0_def
    by (simp add: GenericTimer_init_def get_interrupt_controller_def reg Let_def d
        trace_kprintf trace_emit msr_writes_append trace_enable_irq trace_set_control
        trace_set_interval_ticks timer_kprintf timer_emit timer_enable_irq timer_set_control
        timer_set_interval_ticks tr)
qed

text \<open>100 Hz against a counter of 1,000,000 Hz: the reload value is 10,000.\<close>

theorem GenericTimer_init_reload_value_witness:
  "returned (GenericTimer_init 100 (Extern_fn 1) Nullptr 1000000 machine_64_lines)
   \<and> current_interval_ticks (global_el1_timer_instance
        (machine_of (GenericTimer_init 100 (Extern_fn 1) Nullptr 1000000 machine_64_lines))) = 10000
   \<and> msr_writes CNTP_TVAL_EL0
        (trace (machine_of (GenericTimer_init 100 (Extern_fn 1) Nullptr 1000000 machine_64_lines)))
       = [10000]"
proof -
  have f: "(100 :: uint32) \<noteq> 0" and cf: "(1000000 :: uint64) \<noteq> 0" by simp_all
  have line: "irq_number (global_el1_timer_instance machine_64_lines) < MAX_IRQS"
    by (simp add: machine_64_lines_simps MAX_IRQS_def)
  have free: "\<not> is_registered (get_slot machine_64_lines
      (irq_number (global_el1_timer_instance machine_64_lines)))"
    by (simp add: machine_64_lines_simps empty_registration_def)
  have q: "(1000000 :: uint64) div ucast (100 :: uint32) = 10000" by simp
  show ?thesis
    using GenericTimer_init_reload_value [OF f cf line free, of "Extern_fn 1" Nullptr]
    by (simp add: q machine_64_lines_simps)
qed

section \<open>Page tables\<close>

lemma pa_shift: "(of_nat i :: uint64) * PAGE_SIZE_2MB = push_bit 21 (of_nat i)"
  by (simp add: PAGE_SIZE_2MB_def push_bit_eq_mult)

lemma output_address_mask: "(0x0000FFFFFFE00000 :: uint64) = push_bit 21 (mask 27)"
  by (simp add: mask_eq_exp_minus_1 push_bit_eq_mult)

text \<open>A block address below \<open>2 ^ 48\<close> lies within the output-address field.\<close>

lemma pa_fits:
  assumes "i < 2 ^ 27"
  shows "output_address ((of_nat i :: uint64) * PAGE_SIZE_2MB) = of_nat i * PAGE_SIZE_2MB"
proof -
  have "take_bit 27 (of_nat i :: uint64) = of_nat i"
    using assms by (simp add: take_bit_of_nat take_bit_nat_eq_self)
  then have "(of_nat i :: uint64) AND mask 27 = of_nat i"
    by (simp add: take_bit_eq_mask)
  then show ?thesis
    unfolding output_address_def pa_shift output_address_mask
    by (simp add: push_bit_and [symmetric])
qed

lemma pa1_fits:
  assumes "i < 512"
  shows "output_address (PAGE_SIZE_1GB + (of_nat i :: uint64) * PAGE_SIZE_2MB)
       = PAGE_SIZE_1GB + of_nat i * PAGE_SIZE_2MB"
proof -
  have "PAGE_SIZE_1GB + (of_nat i :: uint64) * PAGE_SIZE_2MB = of_nat (512 + i) * PAGE_SIZE_2MB"
    by (simp add: PAGE_SIZE_1GB_def PAGE_SIZE_2MB_def algebra_simps)
  moreover have "512 + i < 2 ^ 27" using assms by simp
  ultimately show ?thesis by (simp only: pa_fits)
qed

lemma output_address_or:
  "output_address (a OR b) = output_address a OR output_address b"
  by (simp add: output_address_def bit.conj_disj_distrib2)

lemma output_address_block:
  "output_address pa = pa \<Longrightarrow> output_address fl = 0 \<Longrightarrow> output_address (pa OR fl) = pa"
  by (simp add: output_address_or)

text \<open>The flags of each of the three branches have no bit in the output-address field.\<close>

lemma flags_device:
  "output_address
     ((((PTE_VALID OR PTE_AF OR PTE_SH_INNER_SHAREABLE) OR PTE_ATTR_INDX (ucast MAIR_IDX_DEVICE_NGNRNE))
        OR PTE_AP_EL1_RW_EL0_NONE) OR (PTE_PXN OR PTE_UXN)) = 0"
  by (simp add: output_address_def PTE_VALID_def PTE_AF_def PTE_SH_INNER_SHAREABLE_def
      PTE_ATTR_INDX_def MAIR_IDX_DEVICE_NGNRNE_def PTE_AP_EL1_RW_EL0_NONE_def PTE_PXN_def PTE_UXN_def)

lemma flags_kernel:
  "output_address
     (((((PTE_VALID OR PTE_AF OR PTE_SH_INNER_SHAREABLE) OR PTE_ATTR_INDX (ucast MAIR_IDX_NORMAL_C))
         OR PTE_AP_EL1_RW_EL0_NONE) AND NOT PTE_PXN) OR PTE_UXN) = 0"
  by (simp add: output_address_def PTE_VALID_def PTE_AF_def PTE_SH_INNER_SHAREABLE_def
      PTE_ATTR_INDX_def MAIR_IDX_NORMAL_C_def PTE_AP_EL1_RW_EL0_NONE_def PTE_PXN_def PTE_UXN_def)

lemma flags_ram:
  "output_address
     ((((PTE_VALID OR PTE_AF OR PTE_SH_INNER_SHAREABLE) OR PTE_ATTR_INDX (ucast MAIR_IDX_NORMAL_C))
        OR PTE_AP_EL1_RW_EL0_NONE) OR (PTE_PXN OR PTE_UXN)) = 0"
  by (simp add: output_address_def PTE_VALID_def PTE_AF_def PTE_SH_INNER_SHAREABLE_def
      PTE_ATTR_INDX_def MAIR_IDX_NORMAL_C_def PTE_AP_EL1_RW_EL0_NONE_def PTE_PXN_def PTE_UXN_def)

lemma output_address_if3:
  assumes "output_address (pa OR f1) = pa" "output_address (pa OR f2) = pa"
    "output_address (pa OR f3) = pa"
  shows "output_address (pa OR (if c1 then f1 else if c2 then f2 else f3)) = pa"
  using assms by simp

lemma output_address_if2:
  assumes "output_address (pa OR f1) = pa" "output_address (pa OR f2) = pa"
  shows "output_address (pa OR (if c1 then f1 else f2)) = pa"
  using assms by simp

lemma l2_table_0_entry_output_address:
  assumes "i < 2 ^ 27"
  shows "output_address (l2_table_0_entry lnk i) = of_nat i * PAGE_SIZE_2MB"
  unfolding l2_table_0_entry_def Let_def
  by (rule output_address_if3; rule output_address_block [OF pa_fits [OF assms]];
      rule flags_device flags_kernel flags_ram)

lemma l2_table_1_entry_output_address:
  assumes "i < 512"
  shows "output_address (l2_table_1_entry i) = PAGE_SIZE_1GB + of_nat i * PAGE_SIZE_2MB"
  unfolding l2_table_1_entry_def Let_def
  by (rule output_address_if2; rule output_address_block [OF pa1_fits [OF assms]];
      rule flags_device flags_ram)

text \<open>The loops: each index from the start index on receives its descriptor, the others keep theirs.\<close>

lemma fill_l2_table_0_nth:
  "length tbl = PAGE_TABLE_ENTRIES \<Longrightarrow> j < PAGE_TABLE_ENTRIES \<Longrightarrow>
   fill_l2_table_0 lnk i tbl ! j = (if i \<le> j then l2_table_0_entry lnk j else tbl ! j)"
proof (induction lnk i tbl rule: fill_l2_table_0.induct)
  case (1 lnk i tbl)
  show ?case
  proof (cases "i < PAGE_TABLE_ENTRIES")
    case True
    then show ?thesis
      using "1.IH" [OF True] "1.prems"
      by (subst fill_l2_table_0.simps)
        (auto simp: nth_list_update not_less_eq_eq dest: le_antisym)
  next
    case False
    then show ?thesis
      using "1.prems" by (subst fill_l2_table_0.simps) simp
  qed
qed

lemma fill_l2_table_1_nth:
  "length tbl = PAGE_TABLE_ENTRIES \<Longrightarrow> j < PAGE_TABLE_ENTRIES \<Longrightarrow>
   fill_l2_table_1 i tbl ! j = (if i \<le> j then l2_table_1_entry j else tbl ! j)"
proof (induction i tbl rule: fill_l2_table_1.induct)
  case (1 i tbl)
  show ?case
  proof (cases "i < PAGE_TABLE_ENTRIES")
    case True
    then show ?thesis
      using "1.IH" [OF True] "1.prems"
      by (subst fill_l2_table_1.simps)
        (auto simp: nth_list_update not_less_eq_eq dest: le_antisym)
  next
    case False
    then show ?thesis
      using "1.prems" by (subst fill_l2_table_1.simps) simp
  qed
qed

lemma length_fill_l2_table_0: "length (fill_l2_table_0 lnk i tbl) = length tbl"
proof (induction lnk i tbl rule: fill_l2_table_0.induct)
  case (1 lnk i tbl)
  then show ?case by (subst fill_l2_table_0.simps) simp
qed

lemma length_fill_l2_table_1: "length (fill_l2_table_1 i tbl) = length tbl"
proof (induction i tbl rule: fill_l2_table_1.induct)
  case (1 i tbl)
  then show ?case by (subst fill_l2_table_1.simps) simp
qed

lemma setup_l2_page_table_0:
  "i < PAGE_TABLE_ENTRIES \<Longrightarrow>
   l2_page_table_0 (setup_page_tables lnk m) ! i = l2_table_0_entry lnk i"
  by (simp add: setup_page_tables_def Let_def kprintf_def emit_def fill_l2_table_0_nth)

lemma setup_l2_page_table_1:
  "i < PAGE_TABLE_ENTRIES \<Longrightarrow>
   l2_page_table_1 (setup_page_tables lnk m) ! i = l2_table_1_entry i"
  by (simp add: setup_page_tables_def Let_def kprintf_def emit_def fill_l2_table_1_nth)

lemma length_setup_page_tables:
  "length (l2_page_table_0 (setup_page_tables lnk m)) = PAGE_TABLE_ENTRIES"
  "length (l2_page_table_1 (setup_page_tables lnk m)) = PAGE_TABLE_ENTRIES"
  by (simp_all add: setup_page_tables_def Let_def kprintf_def emit_def
      length_fill_l2_table_0 length_fill_l2_table_1)

lemma unat_pa0: "i < 2 ^ 27 \<Longrightarrow> unat ((of_nat i :: uint64) * PAGE_SIZE_2MB) = i * 2 ^ 21"
  by (simp add: PAGE_SIZE_2MB_def unat_word_ariths unat_of_nat)

lemma unat_pa1:
  "i < 512 \<Longrightarrow> unat (PAGE_SIZE_1GB + (of_nat i :: uint64) * PAGE_SIZE_2MB) = 2 ^ 30 + i * 2 ^ 21"
  by (simp add: PAGE_SIZE_1GB_def PAGE_SIZE_2MB_def unat_word_ariths unat_of_nat)

lemma example_entries:
  "l2_table_0_entry example_symbols 0 = 0x0040000000000709"
  "l2_table_0_entry example_symbols 1 = 0x0060000000200709"
  "l2_table_0_entry example_symbols 2032 = 0x00600000FE000701"
  by (simp_all add: l2_table_0_entry_def example_symbols_def Let_def
      PTE_VALID_def PTE_AF_def PTE_SH_INNER_SHAREABLE_def PTE_ATTR_INDX_def
      MAIR_IDX_NORMAL_C_def MAIR_IDX_DEVICE_NGNRNE_def PTE_AP_EL1_RW_EL0_NONE_def
      PTE_PXN_def PTE_UXN_def PAGE_SIZE_2MB_def
      RPI4_PERIPHERAL_BASE_PHYS_def RPI4_PERIPHERAL_END_PHYS_def)

text \<open>
  Claim C2. After \<open>setup_page_tables\<close>, each of the two second-level tables has 512
  entries, and for every index \<open>i\<close> below 512 the output-address field (bits 47:21) of
  entry \<open>i\<close> is the address of its block: \<open>i\<close> times 2 MiB in the first table, 1 GiB plus
  \<open>i\<close> times 2 MiB in the second; these are the block addresses of \<open>[0, 2 GiB)\<close>. This
  holds wherever the kernel image lies (every \<open>KERNEL_START\<close>, \<open>KERNEL_END\<close>). The
  descriptor computed by the loop body has this property in each of its three branches:
  for every block number below \<open>2 ^ 27\<close> (every block address below \<open>2 ^ 48\<close>, which
  includes the peripheral window), its output-address field is the block address.
\<close>

theorem setup_page_tables_identity:
  fixes lnk :: linker_symbols and m :: machine
  defines "pt \<equiv> setup_page_tables lnk m"
  shows "length (l2_page_table_0 pt) = 512 \<and> length (l2_page_table_1 pt) = 512
       \<and> (\<forall>i < 512. unat (output_address (l2_page_table_0 pt ! i)) = i * 2 ^ 21
                    \<and> unat (output_address (l2_page_table_1 pt ! i)) = 2 ^ 30 + i * 2 ^ 21)
       \<and> (\<forall>j < 2 ^ 27. unat (output_address (l2_table_0_entry lnk j)) = j * 2 ^ 21)"
  unfolding pt_def
  by (simp add: length_setup_page_tables setup_l2_page_table_0 setup_l2_page_table_1
      PAGE_TABLE_ENTRIES_def l2_table_0_entry_output_address l2_table_1_entry_output_address
      unat_pa0 unat_pa1)

text \<open>
  With the kernel image at \<open>0x80000 .. 0x200000\<close>: entry 1 of each table; and the loop
  body in its kernel-image branch (block 0), its general-RAM branch (block 1) and its
  device branch (block 2032, address \<open>0xFE000000\<close>).
\<close>

theorem setup_page_tables_identity_witness:
  "unat (output_address (l2_page_table_0 (setup_page_tables example_symbols boot_machine) ! 1))
     = 0x200000
   \<and> unat (output_address (l2_page_table_1 (setup_page_tables example_symbols boot_machine) ! 1))
     = 0x40200000
   \<and> l2_table_0_entry example_symbols 0 = 0x0040000000000709
   \<and> unat (output_address (l2_table_0_entry example_symbols 0)) = 0
   \<and> l2_table_0_entry example_symbols 1 = 0x0060000000200709
   \<and> unat (output_address (l2_table_0_entry example_symbols 1)) = 0x200000
   \<and> l2_table_0_entry example_symbols 2032 = 0x00600000FE000701
   \<and> unat (output_address (l2_table_0_entry example_symbols 2032)) = 0xFE000000"
proof -
  note identity = setup_page_tables_identity [of example_symbols boot_machine]
  have tables: "unat (output_address
        (l2_page_table_0 (setup_page_tables example_symbols boot_machine) ! i)) = i * 2 ^ 21
      \<and> unat (output_address
        (l2_page_table_1 (setup_page_tables example_symbols boot_machine) ! i)) = 2 ^ 30 + i * 2 ^ 21"
    if "i < 512" for i
    using identity that by blast
  have body: "unat (output_address (l2_table_0_entry example_symbols j)) = j * 2 ^ 21"
    if "j < 2 ^ 27" for j
    using identity that by blast
  show ?thesis
    using tables [of 1] body [of 0] body [of 1] body [of 2032] example_entries by simp
qed

section \<open>Enabling the MMU\<close>

lemma bit_push_bit_one:
  "bit (push_bit k (1 :: uint64)) n \<longleftrightarrow> n = k \<and> k < 64"
  by (auto simp: bit_simps)

text \<open>
  Claim C10. \<open>enable_mmu_and_caches\<close> writes \<open>SCTLR_EL1\<close> once, and the value written is
  the value read at the start with bits 0, 2 and 12 set: every bit of the written value
  other than these three equals the bit read.
\<close>

theorem enable_mmu_and_caches_sctlr:
  "msr_writes SCTLR_EL1
      (trace (machine_of (enable_mmu_and_caches sctlr_read sctlr_logged final_sctlr m)))
     = msr_writes SCTLR_EL1 (trace m) @ [sctlr_read OR 0x1005]
   \<and> (\<forall>n. bit (sctlr_read OR 0x1005) n \<longleftrightarrow> bit sctlr_read n \<or> n = 0 \<or> n = 2 \<or> n = 12)"
proof -
  have v: "((sctlr_read OR push_bit 0 1) OR push_bit 2 1) OR push_bit 12 1 = sctlr_read OR 0x1005"
    by (simp add: or.assoc)
  have w: "msr_writes SCTLR_EL1
      (trace (machine_of (enable_mmu_and_caches sctlr_read sctlr_logged final_sctlr m)))
     = msr_writes SCTLR_EL1 (trace m)
         @ [((sctlr_read OR push_bit 0 1) OR push_bit 2 1) OR push_bit 12 1]"
    by (simp add: enable_mmu_and_caches_def Let_def msr_writes_panic trace_emit trace_kprintf
        msr_writes_append)
  have b: "bit (sctlr_read OR 0x1005) n \<longleftrightarrow> bit sctlr_read n \<or> n = 0 \<or> n = 2 \<or> n = 12" for n
  proof -
    have "bit (((sctlr_read OR push_bit 0 1) OR push_bit 2 1) OR push_bit 12 1) n
        \<longleftrightarrow> bit sctlr_read n \<or> n = 0 \<or> n = 2 \<or> n = 12"
      by (simp only: bit_or_iff bit_push_bit_one) auto
    then show ?thesis by (simp only: v)
  qed
  show ?thesis using w b by (simp only: v) simp
qed

text \<open>
  A read of \<open>0x30D00800\<close>: \<open>0x30D01805\<close> is written, whether the final read shows the
  MMU enabled or not; bit 11 stays set and bit 1 stays clear.
\<close>

theorem enable_mmu_and_caches_sctlr_witness:
  "msr_writes SCTLR_EL1
      (trace (machine_of (enable_mmu_and_caches 0x30D00800 0x30D00800 0x30D01805 boot_machine)))
     = [0x30D01805]
   \<and> msr_writes SCTLR_EL1
      (trace (machine_of (enable_mmu_and_caches 0x30D00800 0x30D00800 0x30D00800 boot_machine)))
     = [0x30D01805]
   \<and> bit (0x30D01805 :: uint64) 11 \<and> \<not> bit (0x30D01805 :: uint64) 1"
proof -
  have t0: "trace boot_machine = []" by (simp add: boot_machine_def)
  have v: "(0x30D00800 :: uint64) OR 0x1005 = 0x30D01805" by simp
  have b11: "bit (0x30D00800 :: uint64) 11" and b1: "\<not> bit (0x30D00800 :: uint64) 1" by simp_all
  show ?thesis
    using enable_mmu_and_caches_sctlr [of "0x30D00800" "0x30D00800" "0x30D01805" boot_machine]
      enable_mmu_and_caches_sctlr [of "0x30D00800" "0x30D00800" "0x30D00800" boot_machine]
      b11 b1
    unfolding v by (simp add: t0)
qed

end
